theory Spec2Isabelle
  imports Main
begin

section \<open>The image-editor component (src/image-editor.js)\<close>

subsection \<open>Values and file records\<close>

text \<open>
  The JavaScript values that occur in file records and promise results. An object is the
  list of its own properties, in insertion order.
\<close>

datatype jsval =
    JUndefined
  | JNull
  | JBool bool
  | JNum int
  | JStr string
  | JObj "(string \<times> jsval) list"

text \<open>
  A FileRecord is an object \<open>{coll, doc, ext, field, filename, index, name, ..., <optimized,
  original, thumbnail>}\<close>; a FileRecordSet is the object \<open>{[name]: FileRecord, ...}\<close> carried
  by the uploader's \<open>data-changed\<close> event. The property \<open>_data\<close> holds such an object or a
  falsy value (\<open>None\<close>).
\<close>

type_synonym FileRecord = "(string \<times> jsval) list"
type_synonym FileRecordSet = "(string \<times> FileRecord) list"

text \<open>\<open>Object.values(o)\<close>: the property values of an object, in property order.\<close>

definition Object_values :: "('k \<times> 'v) list \<Rightarrow> 'v list" where
  "Object_values obj = map snd obj"

text \<open>\<open>key in obj\<close> on a plain object: the object has a property of that name, whatever its value.\<close>

definition has_property :: "string \<Rightarrow> (string \<times> 'v) list \<Rightarrow> bool" where
  "has_property key obj = (key \<in> set (map fst obj))"

subsection \<open>Readiness\<close>

text \<open>
  \<^verbatim>\<open>
  __computeReady(data) {
    if (!data) { return false; }
    const values = Object.values(data);
    if (!values.length) { return false; }
    return values.every(obj => 'optimized' in obj);
  }
  \<close>
\<close>

definition computeReady :: "FileRecordSet option \<Rightarrow> bool" where
  "computeReady data =
     (case data of
        None \<Rightarrow> False
      | Some d \<Rightarrow>
          (let values = Object_values d in
           if length values = 0 then False
           else list_all (\<lambda>obj. has_property ''optimized'' obj) values))"

text \<open>
  The data model of the specification: the fields \<open>optimized\<close>, \<open>original\<close> and \<open>thumbnail\<close>
  are "optional, populated only after successful processing", and then hold "a durable
  reference (e.g., URL)". A record of the data model either has no \<open>optimized\<close> key or has
  one that holds a non-empty value; a value is empty when it is \<open>undefined\<close>, \<open>null\<close> or the
  empty string.
\<close>

definition empty_value :: "jsval \<Rightarrow> bool" where
  "empty_value v = (v = JUndefined \<or> v = JNull \<or> v = JStr [])"

definition in_data_model :: "FileRecordSet \<Rightarrow> bool" where
  "in_data_model S =
     list_all (\<lambda>r. case map_of r ''optimized'' of None \<Rightarrow> True | Some v \<Rightarrow> \<not> empty_value v)
       (Object_values S)"

text \<open>
  The readiness in the specification's words, for comparison with \<open>computeReady\<close>: the set is
  non-empty and every record has a non-empty \<open>optimized\<close> field.
\<close>

definition populated :: "string \<Rightarrow> FileRecord \<Rightarrow> bool" where
  "populated key r = (case map_of r key of None \<Rightarrow> False | Some v \<Rightarrow> \<not> empty_value v)"

definition spec_ready :: "FileRecordSet \<Rightarrow> bool" where
  "spec_ready S = (S \<noteq> [] \<and> list_all (populated ''optimized'') (Object_values S))"

subsection \<open>The component and its collaborators\<close>

text \<open>
  The properties of the element (\<open>static get properties\<close>). \<open>coll\<close> and \<open>doc\<close> have no
  default (\<open>None\<close> is \<open>undefined\<close>); \<open>data\<close> is \<open>_data\<close>, with the default \<open>{}\<close>, and \<open>ready\<close> is
  \<open>_ready\<close>, the output of \<open>__computeReady(_data)\<close>, which is \<open>None\<close> until it has been computed
  for the first time (the declared value \<open>false\<close> is what the first computation then gives
  for the default \<open>_data\<close>).
\<close>

record editor =
  coll :: "string option"
  doc :: "string option"
  field :: string
  noSaveButton :: bool
  multiple :: bool
  data :: "FileRecordSet option"
  ready :: "bool option"

definition defaults :: editor where
  "defaults = \<lparr>coll = None, doc = None, field = ''images'', noSaveButton = False,
     multiple = False, data = Some [], ready = None\<rparr>"

text \<open>
  How a call into a collaborator ends: the promise it returns resolves with a value, is
  rejected with an error (a synchronous throw inside \<open>try\<close> is caught the same way), or
  never settles, in which case the \<open>await\<close> never resumes.
\<close>

datatype 'a outcome = Resolved 'a | Rejected jsval | Pending

text \<open>The calls the component makes on the outside world, with their arguments.\<close>

datatype effect =
    SpinnerShow string
  | SpinnerHide
  | ServicesSet "string option" "string option" "(string \<times> FileRecordSet option) list"
  | ServicesDeleteField "string option" "string option" string
  | UploaderDelete string
  | UploaderDeleteAll
  | UploaderGetData
  | Message string
  | Warn string
  | Schedule
  | ConsoleError jsval
  | Fire string "jsval option"
  | Clicked

text \<open>
  The collaborators are outside the source file (\<open>this.$.spinner\<close>, \<open>this.$.uploader\<close>,
  \<open>services\<close>, \<open>schedule\<close>, \<open>warn\<close>, the inherited \<open>clicked\<close>); the environment gives the
  outcome of each awaited call, as a function of its arguments.
\<close>

record env =
  spinner_show :: "string \<Rightarrow> jsval outcome"
  spinner_hide :: "jsval outcome"
  services_set :: "string option \<Rightarrow> string option \<Rightarrow> (string \<times> FileRecordSet option) list \<Rightarrow> jsval outcome"
  services_deleteField :: "string option \<Rightarrow> string option \<Rightarrow> string \<Rightarrow> jsval outcome"
  uploader_delete :: "string \<Rightarrow> jsval outcome"
  uploader_deleteAll :: "jsval outcome"
  uploader_getData :: "FileRecordSet option"
  schedule_result :: "jsval outcome"
  warn_result :: "string \<Rightarrow> jsval outcome"
  clicked_result :: "jsval outcome"

subsection \<open>Asynchronous control flow\<close>

text \<open>
  A run of a piece of code is the list of effects it performed, in order, and how it ended.
\<close>

type_synonym run = "effect list \<times> jsval outcome"

definition trace :: "run \<Rightarrow> effect list" where
  "trace r = fst r"

definition result :: "run \<Rightarrow> jsval outcome" where
  "result r = snd r"

text \<open>A call into a collaborator: the effect happens, the collaborator decides the outcome.\<close>

definition call :: "effect \<Rightarrow> jsval outcome \<Rightarrow> run" where
  "call ef res = ([ef], res)"

text \<open>Falling off the end of a block: nothing happens, the value is \<open>undefined\<close>.\<close>

definition completed :: run where
  "completed = ([], Resolved JUndefined)"

text \<open>\<open>await p; rest\<close>: \<open>rest\<close> runs only when \<open>p\<close> resolves; a rejection is thrown at the \<open>await\<close>.\<close>

fun await_then :: "run \<Rightarrow> (jsval \<Rightarrow> run) \<Rightarrow> run" where
  "await_then (t, Resolved v) rest = (case rest v of (t', r) \<Rightarrow> (t @ t', r))"
| "await_then (t, Rejected e) rest = (t, Rejected e)"
| "await_then (t, Pending) rest = (t, Pending)"

text \<open>
  \<open>f(x); rest\<close> for a call whose result the source neither awaits nor uses
  (\<open>message\<close>, \<open>this.fire\<close>, \<open>console.error\<close>): the effect happens and the code goes on.
  These three notify and log; they are taken to return normally, and a promise they may
  return is dropped by the source.
\<close>

fun do_then :: "effect \<Rightarrow> run \<Rightarrow> run" where
  "do_then ef (t, r) = (ef # t, r)"

text \<open>\<open>try { body } catch (error) { handler }\<close>.\<close>

fun try_catch :: "run \<Rightarrow> (jsval \<Rightarrow> run) \<Rightarrow> run" where
  "try_catch (t, Rejected e) handler = (case handler e of (t', r) \<Rightarrow> (t @ t', r))"
| "try_catch (t, Resolved v) handler = (t, Resolved v)"
| "try_catch (t, Pending) handler = (t, Pending)"

text \<open>
  \<open>try { ... } catch { ... } finally { return f }\<close> in an async function: when the guarded
  part has completed, normally or by a throw, the \<open>finally\<close> block runs and its \<open>return\<close>
  replaces that completion; the promise of the function then follows the returned promise.
  A guarded part that never completes never reaches \<open>finally\<close>.
\<close>

fun finally_return :: "run \<Rightarrow> run \<Rightarrow> run" where
  "finally_return (t, Pending) f = (t, Pending)"
| "finally_return (t, Resolved v) (t', r) = (t @ t', r)"
| "finally_return (t, Rejected e) (t', r) = (t @ t', r)"

subsection \<open>The methods of the element\<close>

text \<open>\<open>__readyChanged(ready) { this.fire('image-editor-ready-changed', {value: ready}); }\<close>\<close>

definition readyChanged :: "editor \<Rightarrow> bool \<Rightarrow> run" where
  "readyChanged this rdy =
     do_then (Fire ''image-editor-ready-changed'' (Some (JObj [(''value'', JBool rdy)]))) completed"

text \<open>An event is modelled by its \<open>detail\<close>.\<close>

record 'd event =
  detail :: 'd

text \<open>\<open>__fileDataChanged(event) { this._data = event.detail; }\<close>\<close>

definition fileDataChanged :: "editor \<Rightarrow> (FileRecordSet option) event \<Rightarrow> editor" where
  "fileDataChanged this ev = this\<lparr>data := detail ev\<rparr>"

text \<open>
  \<open>__delete(name)\<close> (here \<open>priv_delete\<close>):
  \<^verbatim>\<open>
  return services.deleteField({coll: this.coll, doc: this.doc, field: `${this.field}.${name}`});
  \<close>
\<close>

definition priv_delete :: "editor \<Rightarrow> env \<Rightarrow> string \<Rightarrow> run" where
  "priv_delete this env name =
     call (ServicesDeleteField (coll this) (doc this) (field this @ ''.'' @ name))
       (services_deleteField env (coll this) (doc this) (field this @ ''.'' @ name))"

text \<open>
  \<open>__save()\<close> (here \<open>priv_save\<close>):
  \<^verbatim>\<open>
  return services.set({coll: this.coll, doc: this.doc, data: {[this.field]: this._data}});
  \<close>
\<close>

definition priv_save :: "editor \<Rightarrow> env \<Rightarrow> run" where
  "priv_save this env =
     call (ServicesSet (coll this) (doc this) [(field this, data this)])
       (services_set env (coll this) (doc this) [(field this, data this)])"

text \<open>
  \<^verbatim>\<open>
  async save() {
    try {
      await this.$.spinner.show('Saving...');
      await this.__save();
      const text = this.multiple ? 'Images' : 'Image';
      message(`${text} saved.`);
      this.fire('image-editor-save-complete');
      await schedule();
    }
    catch (error) {
      console.error(error);
      await warn('Sorry, an unexpected error occured!');
    }
    finally {
      return this.$.spinner.hide();
    }
  }
  \<close>
\<close>

definition save :: "editor \<Rightarrow> env \<Rightarrow> run" where
  "save this env =
     finally_return
       (try_catch
          (await_then (call (SpinnerShow ''Saving...'') (spinner_show env ''Saving...'')) (\<lambda>_.
           await_then (priv_save this env) (\<lambda>_.
           let text = (if multiple this then ''Images'' else ''Image'') in
           do_then (Message (text @ '' saved.''))
          (do_then (Fire ''image-editor-save-complete'' None)
          (await_then (call Schedule (schedule_result env)) (\<lambda>_.
           completed))))))
          (\<lambda>error.
           do_then (ConsoleError error)
          (await_then (call (Warn ''Sorry, an unexpected error occured!'')
                         (warn_result env ''Sorry, an unexpected error occured!'')) (\<lambda>_.
           completed))))
       (call SpinnerHide (spinner_hide env))"

text \<open>
  \<^verbatim>\<open>
  async delete(name) {
    try {
      await this.$.spinner.show(`Deleting ${name} image...`);
      await this.$.uploader.delete(name);
      message(`${name} image deleted.`);
      await schedule();
    }
    catch (error) {
      console.error(error);
      await warn('Sorry, an error occured while trying to delete the image!');
    }
    finally {
      return this.$.spinner.hide();
    }
  }
  \<close>
\<close>

definition delete :: "editor \<Rightarrow> env \<Rightarrow> string \<Rightarrow> run" where
  "delete this env name =
     finally_return
       (try_catch
          (await_then (call (SpinnerShow (''Deleting '' @ name @ '' image...''))
                         (spinner_show env (''Deleting '' @ name @ '' image...''))) (\<lambda>_.
           await_then (call (UploaderDelete name) (uploader_delete env name)) (\<lambda>_.
           do_then (Message (name @ '' image deleted.''))
          (await_then (call Schedule (schedule_result env)) (\<lambda>_.
           completed)))))
          (\<lambda>error.
           do_then (ConsoleError error)
          (await_then (call (Warn ''Sorry, an error occured while trying to delete the image!'')
                         (warn_result env ''Sorry, an error occured while trying to delete the image!'')) (\<lambda>_.
           completed))))
       (call SpinnerHide (spinner_hide env))"

text \<open>
  \<^verbatim>\<open>
  async deleteAll() {
    try {
      await this.$.spinner.show(`Deleting images...`);
      await this.$.uploader.deleteAll();
      message('Images deleted.');
      await schedule();
    }
    catch (error) {
      console.error(error);
      await warn('Sorry, an error occured while trying to delete images!');
    }
    finally {
      return this.$.spinner.hide();
    }
  }
  \<close>
\<close>

definition deleteAll :: "editor \<Rightarrow> env \<Rightarrow> run" where
  "deleteAll this env =
     finally_return
       (try_catch
          (await_then (call (SpinnerShow ''Deleting images...'')
                         (spinner_show env ''Deleting images...'')) (\<lambda>_.
           await_then (call UploaderDeleteAll (uploader_deleteAll env)) (\<lambda>_.
           do_then (Message ''Images deleted.'')
          (await_then (call Schedule (schedule_result env)) (\<lambda>_.
           completed)))))
          (\<lambda>error.
           do_then (ConsoleError error)
          (await_then (call (Warn ''Sorry, an error occured while trying to delete images!'')
                         (warn_result env ''Sorry, an error occured while trying to delete images!'')) (\<lambda>_.
           completed))))
       (call SpinnerHide (spinner_hide env))"

text \<open>
  \<open>getData() { return this.$.uploader.getData(); }\<close>: a synchronous call; the value returned
  is the collaborator's.
\<close>

definition getData :: "editor \<Rightarrow> env \<Rightarrow> effect list \<times> FileRecordSet option" where
  "getData this env = ([UploaderGetData], uploader_getData env)"

text \<open>
  \<^verbatim>\<open>
  async __saveBtnClicked() {
    try {
      await this.clicked();
      await this.save();
    }
    catch (error) {
      if (error === 'click debounced') { return; }
      console.error(error);
    }
  }
  \<close>
\<close>

definition saveBtnClicked :: "editor \<Rightarrow> env \<Rightarrow> run" where
  "saveBtnClicked this env =
     try_catch
       (await_then (call Clicked (clicked_result env)) (\<lambda>_.
        await_then (save this env) (\<lambda>_.
        completed)))
       (\<lambda>error.
        if error = JStr ''click debounced'' then completed
        else do_then (ConsoleError error) completed)"

text \<open>
  The detail of the uploader's \<open>file-deleted\<close> event is the deleted record, of which the
  handler reads \<open>name\<close>.
  \<open>__fileDeleted(event) { this.__delete(event.detail.name); }\<close>: the promise is neither
  awaited nor returned, so the handler itself returns \<open>undefined\<close> at once.
\<close>

record deleted_file =
  name :: string

definition fileDeleted :: "editor \<Rightarrow> env \<Rightarrow> deleted_file event \<Rightarrow> run" where
  "fileDeleted this env ev = (trace (priv_delete this env (name (detail ev))), Resolved JUndefined)"

subsection \<open>Observations on runs\<close>

text \<open>A promise settles when it is resolved or rejected.\<close>

definition settles :: "'a outcome \<Rightarrow> bool" where
  "settles r = (r \<noteq> Pending)"

text \<open>The bulk writes (\<open>services.set\<close>), the confirmation messages and the events of a trace.\<close>

definition store_writes :: "effect list \<Rightarrow> effect list" where
  "store_writes t = filter (\<lambda>e. case e of ServicesSet c d m \<Rightarrow> True | _ \<Rightarrow> False) t"

definition messages :: "effect list \<Rightarrow> effect list" where
  "messages t = filter (\<lambda>e. case e of Message m \<Rightarrow> True | _ \<Rightarrow> False) t"

definition fired :: "string \<Rightarrow> effect list \<Rightarrow> effect list" where
  "fired ev t = filter (\<lambda>e. case e of Fire n d \<Rightarrow> n = ev | _ \<Rightarrow> False) t"

text \<open>
  \<open>save()\<close> begins with \<open>this.$.spinner.show('Saving...')\<close> and nothing else makes that call,
  so the executions of \<open>save()\<close> in a trace are counted by it.
\<close>

definition save_executions :: "effect list \<Rightarrow> nat" where
  "save_executions t = count_list t (SpinnerShow ''Saving...'')"

text \<open>The event that \<open>__readyChanged\<close> fires for a readiness value.\<close>

definition ready_event :: "bool \<Rightarrow> effect" where
  "ready_event b = Fire ''image-editor-ready-changed'' (Some (JObj [(''value'', JBool b)]))"

subsection \<open>The debounce guard of the save button\<close>

text \<open>
  Modelled from the spec: the inherited method \<open>clicked()\<close> (class SpritefulElement) is not
  in the source file. The specification says of the click handler: "debounced entry point:
  if a click is currently debounced, silently no-op (not an error); otherwise invoke
  save()", and the handler recognises the suppressed click by the rejection value
  \<open>'click debounced'\<close>. The guard is a flag that tells whether a click is currently
  debounced: a click that finds it set is rejected with \<open>'click debounced'\<close>, a click that
  finds it clear goes through; either way the flag is set afterwards, until the debounce
  window has elapsed.
\<close>

definition clicked :: "bool \<Rightarrow> bool \<times> jsval outcome" where
  "clicked debounced =
     (if debounced then (True, Rejected (JStr ''click debounced''))
      else (True, Resolved JUndefined))"

text \<open>
  Modelled from the spec: the handler invoked twice within the debounce window, that is
  with no expiry of the window between the two calls of \<open>clicked()\<close>. The collaborators may
  answer the two invocations differently (\<open>env1\<close>, \<open>env2\<close>).
\<close>

definition click_twice :: "editor \<Rightarrow> env \<Rightarrow> env \<Rightarrow> run \<times> run" where
  "click_twice this env1 env2 =
     (case clicked False of (debounced, c1) \<Rightarrow>
      case clicked debounced of (debounced', c2) \<Rightarrow>
        (saveBtnClicked this (env1\<lparr>clicked_result := c1\<rparr>),
         saveBtnClicked this (env2\<lparr>clicked_result := c2\<rparr>)))"

subsection \<open>Property effects\<close>

text \<open>
  Modelled from the spec: the property system of the element's framework, which runs
  \<open>computed: '__computeReady(_data)'\<close> and the observer \<open>'__readyChanged(_ready)'\<close>, is not in
  the source file. The specification says: the readiness is "recomputed synchronously
  whenever the FileRecordSet reference changes", and the event is "fired every time the
  Readiness Tracker's boolean output changes value (including the initial computation),
  carrying the new boolean", with "an explicit previous value comparison to decide whether
  to emit the change notification". Before the initial computation there is no previous
  output (\<open>ready = None\<close>).
\<close>

definition recompute_ready :: "editor \<Rightarrow> editor \<times> effect list" where
  "recompute_ready this =
     (let r = computeReady (data this) in
      if ready this = Some r then (this, [])
      else (this\<lparr>ready := Some r\<rparr>, trace (readyChanged this r)))"

text \<open>
  The element as a state machine: what a method call or a collaborator's event does to the
  properties, and the effects it has. Only \<open>__fileDataChanged\<close> assigns a property; the
  assignment to \<open>_data\<close> is followed by the property effects.
\<close>

datatype input =
    Save
  | Delete string
  | DeleteAll
  | GetData
  | SaveBtnClicked
  | FileDataChanged "(FileRecordSet option) event"
  | FileDeleted "deleted_file event"

fun step :: "env \<Rightarrow> editor \<Rightarrow> input \<Rightarrow> editor \<times> effect list" where
  "step env this Save = (this, trace (save this env))"
| "step env this (Delete n) = (this, trace (delete this env n))"
| "step env this DeleteAll = (this, trace (deleteAll this env))"
| "step env this GetData = (this, fst (getData this env))"
| "step env this SaveBtnClicked = (this, trace (saveBtnClicked this env))"
| "step env this (FileDataChanged ev) = recompute_ready (fileDataChanged this ev)"
| "step env this (FileDeleted ev) = (this, trace (fileDeleted this env ev))"

text \<open>A sequence of \<open>data-changed\<close> events from the uploader, one after the other.\<close>

fun data_changes :: "editor \<Rightarrow> (FileRecordSet option) event list \<Rightarrow> editor \<times> effect list" where
  "data_changes this [] = (this, [])"
| "data_changes this (ev # evs) =
     (case recompute_ready (fileDataChanged this ev) of (this', t) \<Rightarrow>
      case data_changes this' evs of (this'', t') \<Rightarrow> (this'', t @ t'))"

text \<open>
  The life of an element: the initial computation of the readiness, then the
  \<open>data-changed\<close> events.
\<close>

definition lifetime :: "editor \<Rightarrow> (FileRecordSet option) event list \<Rightarrow> editor \<times> effect list" where
  "lifetime this evs =
     (case recompute_ready this of (this', t) \<Rightarrow>
      case data_changes this' evs of (this'', t') \<Rightarrow> (this'', t @ t'))"

subsection \<open>Example inputs\<close>

text \<open>
  The end-to-end scenario of the specification: collection \<open>cms\<close>, document \<open>home\<close>, field
  \<open>heroImg\<close>, one optimized record \<open>abc123\<close>; collaborators that all succeed, a document
  store that refuses the write, and an uploader whose deletions fail.
\<close>

definition record_abc123 :: FileRecord where
  "record_abc123 = [(''name'', JStr ''abc123''), (''filename'', JStr ''abc123.png''),
     (''optimized'', JStr ''https://cdn/abc123-opt.png'')]"

definition editor_cms :: editor where
  "editor_cms = \<lparr>coll = Some ''cms'', doc = Some ''home'', field = ''heroImg'',
     noSaveButton = False, multiple = False,
     data = Some [(''abc123'', record_abc123)], ready = Some True\<rparr>"

definition env_ok :: env where
  "env_ok = \<lparr>spinner_show = (\<lambda>_. Resolved JUndefined), spinner_hide = Resolved JUndefined,
     services_set = (\<lambda>_ _ _. Resolved JUndefined),
     services_deleteField = (\<lambda>_ _ _. Resolved JUndefined),
     uploader_delete = (\<lambda>_. Resolved (JObj record_abc123)),
     uploader_deleteAll = Resolved JUndefined,
     uploader_getData = Some [],
     schedule_result = Resolved JUndefined,
     warn_result = (\<lambda>_. Resolved JUndefined),
     clicked_result = Resolved JUndefined\<rparr>"

definition env_store_fails :: env where
  "env_store_fails = env_ok\<lparr>services_set := (\<lambda>_ _ _. Rejected (JStr ''permission-denied''))\<rparr>"

definition env_uploader_fails :: env where
  "env_uploader_fails = env_ok\<lparr>uploader_delete := (\<lambda>_. Rejected (JStr ''not-found'')),
     uploader_deleteAll := Rejected (JStr ''not-found''),
     warn_result := (\<lambda>_. Rejected (JStr ''toast failed''))\<rparr>"

text \<open>Four \<open>data-changed\<close> events: not optimized, optimized, one of two not optimized, empty.\<close>

definition changes_example :: "(FileRecordSet option) event list" where
  "changes_example =
     [\<lparr>detail = Some [(''a'', [(''name'', JStr ''a'')])]\<rparr>,
      \<lparr>detail = Some [(''a'', [(''name'', JStr ''a''), (''optimized'', JStr ''u1'')])]\<rparr>,
      \<lparr>detail = Some [(''a'', [(''name'', JStr ''a''), (''optimized'', JStr ''u1'')]),
                     (''b'', [(''name'', JStr ''b'')])]\<rparr>,
      \<lparr>detail = Some []\<rparr>]"

section \<open>Readiness computation\<close>

lemma computeReady_Some:
  "computeReady (Some S) =
     (S \<noteq> [] \<and> (\<forall>r \<in> set (Object_values S). has_property ''optimized'' r))"
  by (simp add: computeReady_def Object_values_def list_all_iff)

lemma has_property_map_of: "has_property key r = (map_of r key \<noteq> None)"
  by (simp add: has_property_def map_of_eq_None_iff)

text \<open>On a record of the data model, a populated \<open>optimized\<close> field is an \<open>optimized\<close> key.\<close>

lemma populated_in_data_model:
  assumes "in_data_model S" and "r \<in> set (Object_values S)"
  shows "populated ''optimized'' r = has_property ''optimized'' r"
  using assms
  by (auto simp: in_data_model_def populated_def has_property_map_of list_all_iff
      split: option.splits)

lemma computeReady_spec_ready:
  assumes "in_data_model S"
  shows "computeReady (Some S) = spec_ready S"
  using populated_in_data_model [OF assms]
  by (auto simp: computeReady_Some spec_ready_def list_all_iff)

text \<open>
  C1: for every FileRecordSet of the data model, the readiness computation returns true
  exactly when the set is non-empty and every record has a non-empty \<open>optimized\<close> field.
  For every FileRecordSet whatever, it returns true exactly when the set is non-empty and
  every record has an \<open>optimized\<close> key. The empty set is not ready, a falsy \<open>_data\<close> is not
  ready, and one record without the key makes the whole set not ready.
\<close>

theorem computeReady_iff_optimized_key:
  "(in_data_model S \<longrightarrow> computeReady (Some S) = spec_ready S)
   \<and> computeReady (Some S) =
       (S \<noteq> [] \<and> (\<forall>r \<in> set (Object_values S). has_property ''optimized'' r))
   \<and> computeReady (Some []) = False
   \<and> computeReady None = False
   \<and> ((n, r) \<in> set S \<and> \<not> has_property ''optimized'' r \<longrightarrow> computeReady (Some S) = False)"
proof (intro conjI impI)
  assume "in_data_model S"
  then show "computeReady (Some S) = spec_ready S"
    by (rule computeReady_spec_ready)
next
  show "computeReady (Some S) =
     (S \<noteq> [] \<and> (\<forall>r \<in> set (Object_values S). has_property ''optimized'' r))"
    by (rule computeReady_Some)
  show "computeReady (Some []) = False"
    by (simp add: computeReady_def Object_values_def)
  show "computeReady None = False"
    by (simp add: computeReady_def)
next
  assume a: "(n, r) \<in> set S \<and> \<not> has_property ''optimized'' r"
  then have "r \<in> set (Object_values S)"
    by (force simp: Object_values_def)
  with a show "computeReady (Some S) = False"
    by (auto simp: computeReady_Some)
qed

text \<open>
  C1 at the specification's examples: one optimized record is ready; one optimized record
  and one without \<open>optimized\<close> are not ready; one record without \<open>optimized\<close> is not ready.
\<close>

theorem computeReady_iff_optimized_key_witness:
  "in_data_model [(''a'', [(''optimized'', JStr ''url'')])]
   \<and> spec_ready [(''a'', [(''optimized'', JStr ''url'')])]
   \<and> computeReady (Some [(''a'', [(''optimized'', JStr ''url'')])]) = True
   \<and> in_data_model [(''a'', [(''optimized'', JStr ''u1'')]), (''b'', [(''size'', JNum 3)])]
   \<and> \<not> spec_ready [(''a'', [(''optimized'', JStr ''u1'')]), (''b'', [(''size'', JNum 3)])]
   \<and> computeReady (Some [(''a'', [(''optimized'', JStr ''u1'')]), (''b'', [(''size'', JNum 3)])]) = False
   \<and> computeReady (Some [(''a'', [(''size'', JNum 3)])]) = False"
  using computeReady_iff_optimized_key [of "[(''a'', [(''optimized'', JStr ''url'')])]" "''a''" "[]"]
    computeReady_iff_optimized_key [of "[(''a'', [(''optimized'', JStr ''u1'')]), (''b'', [(''size'', JNum 3)])]"
      "''b''" "[(''size'', JNum 3)]"]
    computeReady_iff_optimized_key [of "[(''a'', [(''size'', JNum 3)])]"
      "''a''" "[(''size'', JNum 3)]"]
  by (simp add: Object_values_def has_property_def in_data_model_def spec_ready_def
      populated_def empty_value_def)

section \<open>Control-flow lemmas\<close>

lemma result_call: "result (call ef r) = r"
  by (simp add: call_def result_def)

lemma trace_call: "trace (call ef r) = [ef]"
  by (simp add: call_def trace_def)

lemma trace_finally_return:
  "trace (finally_return b f) = (if result b = Pending then trace b else trace b @ trace f)"
  by (cases b; cases f; cases "result b") (auto simp: trace_def result_def)

lemma result_finally_return:
  "result (finally_return b f) = (if result b = Pending then Pending else result f)"
  by (cases b; cases f; cases "result b") (auto simp: trace_def result_def)

section \<open>save()\<close>

text \<open>
  What a successful write is followed by: the message, the event and the yield, then
  nothing but the handling of a failed yield and the release of the spinner.
\<close>

lemma trace_of_successful_save:
  assumes "spinner_show env ''Saving...'' = Resolved u"
      and "services_set env (coll this) (doc this) [(field this, data this)] = Resolved v"
  shows "\<exists>rest. trace (save this env) =
            [SpinnerShow ''Saving...'',
             ServicesSet (coll this) (doc this) [(field this, data this)],
             Message (if multiple this then ''Images saved.'' else ''Image saved.''),
             Fire ''image-editor-save-complete'' None,
             Schedule] @ rest
          \<and> set rest \<subseteq> {SpinnerHide, Warn ''Sorry, an unexpected error occured!''} \<union> range ConsoleError"
  using assms
  by (cases "schedule_result env"; cases "warn_result env ''Sorry, an unexpected error occured!''")
     (auto simp: save_def priv_save_def call_def completed_def trace_def Let_def)

text \<open>
  C2: in every invocation of \<open>save()\<close> in which the document-store write is made and
  succeeds, the only bulk write is \<open>{[field]: _data}\<close> at \<open>(coll, doc)\<close>, the only message
  shown is \<open>Images saved.\<close> in multi-file mode and \<open>Image saved.\<close> otherwise, and the
  \<open>image-editor-save-complete\<close> event is fired exactly once.
\<close>

theorem save_success:
  assumes "spinner_show env ''Saving...'' = Resolved u"
      and "services_set env (coll this) (doc this) [(field this, data this)] = Resolved v"
  shows "store_writes (trace (save this env)) =
           [ServicesSet (coll this) (doc this) [(field this, data this)]]
       \<and> messages (trace (save this env)) =
           [Message (if multiple this then ''Images saved.'' else ''Image saved.'')]
       \<and> fired ''image-editor-save-complete'' (trace (save this env)) =
           [Fire ''image-editor-save-complete'' None]"
  using assms
  by (cases "schedule_result env"; cases "warn_result env ''Sorry, an unexpected error occured!''")
     (auto simp: save_def priv_save_def call_def completed_def trace_def Let_def
        store_writes_def messages_def fired_def)

text \<open>C2 at the specification's scenario, and in multi-file mode.\<close>

theorem save_success_witness:
  "store_writes (trace (save editor_cms env_ok)) =
           [ServicesSet (Some ''cms'') (Some ''home'') [(''heroImg'', Some [(''abc123'', record_abc123)])]]
       \<and> messages (trace (save editor_cms env_ok)) = [Message ''Image saved.'']
       \<and> fired ''image-editor-save-complete'' (trace (save editor_cms env_ok)) =
           [Fire ''image-editor-save-complete'' None]
       \<and> messages (trace (save (editor_cms\<lparr>multiple := True\<rparr>) env_ok)) = [Message ''Images saved.'']"
  using save_success [of env_ok JUndefined editor_cms JUndefined]
    save_success [of env_ok JUndefined "editor_cms\<lparr>multiple := True\<rparr>" JUndefined]
  by (simp add: env_ok_def editor_cms_def)

text \<open>
  When the write is rejected, the error is logged, the warning is shown, no event is fired,
  and the promise of \<open>save()\<close> follows the promise of \<open>hide()\<close>: the error of the write is not
  passed on.
\<close>

lemma save_failure_trace:
  assumes "spinner_show env ''Saving...'' = Resolved u"
      and "services_set env (coll this) (doc this) [(field this, data this)] = Rejected e"
  shows "trace (save this env) =
            [SpinnerShow ''Saving...'',
             ServicesSet (coll this) (doc this) [(field this, data this)],
             ConsoleError e,
             Warn ''Sorry, an unexpected error occured!'']
            @ (if warn_result env ''Sorry, an unexpected error occured!'' = Pending then []
               else [SpinnerHide])
       \<and> (result (save this env) = Pending \<or> result (save this env) = spinner_hide env)"
  using assms
  by (cases "warn_result env ''Sorry, an unexpected error occured!''")
     (auto simp: save_def priv_save_def call_def completed_def trace_def result_def Let_def)

text \<open>
  C3, at a write refused with \<open>permission-denied\<close>: the error is caught and logged, no event
  is fired and \<open>save()\<close> resolves, but the warning shown reads \<open>occured\<close>; the text of the
  claim, \<open>Sorry, an unexpected error occurred!\<close>, is never shown.
\<close>

theorem save_failure_warning_text:
  "trace (save editor_cms env_store_fails) =
     [SpinnerShow ''Saving...'',
      ServicesSet (Some ''cms'') (Some ''home'') [(''heroImg'', Some [(''abc123'', record_abc123)])],
      ConsoleError (JStr ''permission-denied''),
      Warn ''Sorry, an unexpected error occured!'',
      SpinnerHide]
   \<and> Warn ''Sorry, an unexpected error occurred!'' \<notin> set (trace (save editor_cms env_store_fails))
   \<and> result (save editor_cms env_store_fails) = Resolved JUndefined"
  by (simp add: save_def priv_save_def call_def completed_def trace_def result_def
      env_store_fails_def env_ok_def editor_cms_def)

text \<open>
  C4: \<open>save()\<close> never hides the spinner twice, and whenever the promises it awaits settle,
  whether resolved or rejected, it hides the spinner exactly once, as its last effect,
  and its own promise follows the promise of \<open>hide()\<close>.
\<close>

theorem save_hides_spinner_once:
  "count_list (trace (save this env)) SpinnerHide \<le> 1
   \<and> (settles (spinner_show env ''Saving...'')
      \<and> settles (services_set env (coll this) (doc this) [(field this, data this)])
      \<and> settles (schedule_result env)
      \<and> settles (warn_result env ''Sorry, an unexpected error occured!'')
      \<longrightarrow> (\<exists>t. trace (save this env) = t @ [SpinnerHide] \<and> SpinnerHide \<notin> set t)
          \<and> result (save this env) = spinner_hide env)"
  by (cases "spinner_show env ''Saving...''";
      cases "services_set env (coll this) (doc this) [(field this, data this)]";
      cases "schedule_result env"; cases "warn_result env ''Sorry, an unexpected error occured!''")
     (auto simp: save_def priv_save_def call_def completed_def trace_def result_def Let_def
        settles_def)

text \<open>C4 on the success path and on the path of a refused write.\<close>

theorem save_hides_spinner_once_witness:
  "count_list (trace (save editor_cms env_ok)) SpinnerHide = 1
   \<and> last (trace (save editor_cms env_ok)) = SpinnerHide
   \<and> count_list (trace (save editor_cms env_store_fails)) SpinnerHide = 1
   \<and> last (trace (save editor_cms env_store_fails)) = SpinnerHide"
  using save_hides_spinner_once [of editor_cms env_ok]
    save_hides_spinner_once [of editor_cms env_store_fails]
  by (auto simp: env_store_fails_def env_ok_def settles_def)

section \<open>delete(name) and deleteAll()\<close>

text \<open>Whatever the uploader answers, the promise of \<open>delete(name)\<close> is the promise of \<open>hide()\<close>.\<close>

lemma delete_result:
  "result (delete this env n) = Pending \<or> result (delete this env n) = spinner_hide env"
  by (simp add: delete_def result_finally_return result_call)

text \<open>
  C5, at a deletion that succeeds: the uploader resolves with the deleted record, and
  \<open>delete('abc123')\<close> resolves with the value of \<open>hide()\<close>, here \<open>undefined\<close>, not with the
  record.
\<close>

theorem delete_returns_hide_value:
  "uploader_delete env_ok ''abc123'' = Resolved (JObj record_abc123)
   \<and> trace (delete editor_cms env_ok ''abc123'') =
       [SpinnerShow ''Deleting abc123 image...'', UploaderDelete ''abc123'',
        Message ''abc123 image deleted.'', Schedule, SpinnerHide]
   \<and> result (delete editor_cms env_ok ''abc123'') = Resolved JUndefined
   \<and> result (delete editor_cms env_ok ''abc123'') \<noteq> Resolved (JObj record_abc123)"
  by (simp add: delete_def call_def completed_def trace_def result_def env_ok_def editor_cms_def)

text \<open>
  C9: provided \<open>hide()\<close> resolves, \<open>delete(name)\<close> and \<open>deleteAll()\<close> are never rejected, and
  whenever the promises they await settle, whether resolved or rejected, they resolve,
  with the value of \<open>hide()\<close>.
\<close>

theorem delete_and_deleteAll_never_reject:
  assumes "spinner_hide env = Resolved v"
  shows "result (delete this env n) \<noteq> Rejected e
       \<and> result (deleteAll this env) \<noteq> Rejected e
       \<and> (settles (spinner_show env (''Deleting '' @ n @ '' image...''))
          \<and> settles (uploader_delete env n)
          \<and> settles (schedule_result env)
          \<and> settles (warn_result env ''Sorry, an error occured while trying to delete the image!'')
          \<longrightarrow> result (delete this env n) = Resolved v)
       \<and> (settles (spinner_show env ''Deleting images...'')
          \<and> settles (uploader_deleteAll env)
          \<and> settles (schedule_result env)
          \<and> settles (warn_result env ''Sorry, an error occured while trying to delete images!'')
          \<longrightarrow> result (deleteAll this env) = Resolved v)"
proof (intro conjI impI)
  show "result (delete this env n) \<noteq> Rejected e"
    using assms by (simp add: delete_def result_finally_return result_call)
  show "result (deleteAll this env) \<noteq> Rejected e"
    using assms by (simp add: deleteAll_def result_finally_return result_call)
next
  assume "settles (spinner_show env (''Deleting '' @ n @ '' image...''))
          \<and> settles (uploader_delete env n)
          \<and> settles (schedule_result env)
          \<and> settles (warn_result env ''Sorry, an error occured while trying to delete the image!'')"
  then show "result (delete this env n) = Resolved v"
    using assms
    by (cases "spinner_show env (''Deleting '' @ n @ '' image...'')"; cases "uploader_delete env n";
        cases "schedule_result env";
        cases "warn_result env ''Sorry, an error occured while trying to delete the image!''")
       (auto simp: delete_def call_def completed_def result_def settles_def)
next
  assume "settles (spinner_show env ''Deleting images...'')
          \<and> settles (uploader_deleteAll env)
          \<and> settles (schedule_result env)
          \<and> settles (warn_result env ''Sorry, an error occured while trying to delete images!'')"
  then show "result (deleteAll this env) = Resolved v"
    using assms
    by (cases "spinner_show env ''Deleting images...''"; cases "uploader_deleteAll env";
        cases "schedule_result env";
        cases "warn_result env ''Sorry, an error occured while trying to delete images!''")
       (auto simp: deleteAll_def call_def completed_def result_def settles_def)
qed

text \<open>
  C9 where the uploader rejects the deletion and the warning of the \<open>catch\<close> branch is
  rejected as well.
\<close>

theorem delete_and_deleteAll_never_reject_witness:
  "spinner_hide env_uploader_fails = Resolved JUndefined
   \<and> uploader_delete env_uploader_fails ''abc123'' = Rejected (JStr ''not-found'')
   \<and> warn_result env_uploader_fails ''Sorry, an error occured while trying to delete the image!''
       = Rejected (JStr ''toast failed'')
   \<and> result (delete editor_cms env_uploader_fails ''abc123'') = Resolved JUndefined
   \<and> result (deleteAll editor_cms env_uploader_fails) = Resolved JUndefined"
  using delete_and_deleteAll_never_reject [of env_uploader_fails JUndefined editor_cms "''abc123''"]
  by (simp add: env_uploader_fails_def env_ok_def settles_def)

section \<open>The file-deleted handler\<close>

text \<open>
  C6: on the uploader's \<open>file-deleted\<close> event for a file named \<open>n\<close>, the handler makes one
  call, \<open>services.deleteField\<close> at \<open>(coll, doc)\<close> with the field path \<open>field.n\<close>; it makes no
  bulk write and does not depend on the record set held for \<open>save()\<close>.
\<close>

theorem fileDeleted_deletes_field:
  "trace (fileDeleted this env ev) =
     [ServicesDeleteField (coll this) (doc this) (field this @ ''.'' @ name (detail ev))]
   \<and> store_writes (trace (fileDeleted this env ev)) = []
   \<and> fileDeleted (this\<lparr>data := d\<rparr>) env ev = fileDeleted this env ev"
  by (simp add: fileDeleted_def priv_delete_def call_def trace_def store_writes_def)

section \<open>The save button\<close>

lemma save_runs_once: "save_executions (trace (save this env)) = 1"
  by (cases "spinner_show env ''Saving...''";
      cases "services_set env (coll this) (doc this) [(field this, data this)]";
      cases "schedule_result env"; cases "warn_result env ''Sorry, an unexpected error occured!''")
     (auto simp: save_def priv_save_def call_def completed_def trace_def Let_def
        save_executions_def)

lemma saveBtnClicked_resolved:
  assumes "clicked_result env = Resolved u"
  shows "trace (saveBtnClicked this env) =
           Clicked # trace (save this env) @
             (case result (save this env) of
                Rejected e \<Rightarrow> if e = JStr ''click debounced'' then [] else [ConsoleError e]
              | _ \<Rightarrow> [])"
    and "result (saveBtnClicked this env) =
           (case result (save this env) of Pending \<Rightarrow> Pending | _ \<Rightarrow> Resolved JUndefined)"
  using assms
  by (cases "save this env"; cases "result (save this env)";
      simp add: saveBtnClicked_def call_def completed_def trace_def result_def)+

lemma saveBtnClicked_rejected:
  assumes "clicked_result env = Rejected e"
  shows "trace (saveBtnClicked this env) =
           (if e = JStr ''click debounced'' then [Clicked] else [Clicked, ConsoleError e])"
    and "result (saveBtnClicked this env) = Resolved JUndefined"
  using assms
  by (simp_all add: saveBtnClicked_def call_def completed_def trace_def result_def)

text \<open>
  C7: of two invocations of the handler within the debounce window, exactly one executes
  \<open>save()\<close>; the suppressed one does nothing after \<open>clicked()\<close> (no log, no warning) and
  resolves. Any other error that reaches the handler, from \<open>clicked()\<close> or from \<open>save()\<close>, is
  logged with \<open>console.error\<close> and the handler adds no warning and resolves.
\<close>

theorem saveBtnClicked_debounce:
  "(case click_twice this env1 env2 of (r1, r2) \<Rightarrow>
       save_executions (trace r1 @ trace r2) = 1
     \<and> trace r2 = [Clicked]
     \<and> result r2 = Resolved JUndefined)
   \<and> (clicked_result env = Rejected e \<and> e \<noteq> JStr ''click debounced'' \<longrightarrow>
        trace (saveBtnClicked this env) = [Clicked, ConsoleError e]
      \<and> result (saveBtnClicked this env) = Resolved JUndefined)
   \<and> (clicked_result env = Resolved u \<and> result (save this env) = Rejected e
        \<and> e \<noteq> JStr ''click debounced'' \<longrightarrow>
        trace (saveBtnClicked this env) = Clicked # trace (save this env) @ [ConsoleError e]
      \<and> result (saveBtnClicked this env) = Resolved JUndefined)"
proof (intro conjI impI)
  let ?e1 = "env1\<lparr>clicked_result := Resolved JUndefined\<rparr>"
  let ?e2 = "env2\<lparr>clicked_result := Rejected (JStr ''click debounced'')\<rparr>"
  have twice: "click_twice this env1 env2 = (saveBtnClicked this ?e1, saveBtnClicked this ?e2)"
    by (simp add: click_twice_def clicked_def)
  have r2: "trace (saveBtnClicked this ?e2) = [Clicked]"
       "result (saveBtnClicked this ?e2) = Resolved JUndefined"
    by (simp_all add: saveBtnClicked_rejected [of ?e2 "JStr ''click debounced''"])
  have "save_executions (trace (saveBtnClicked this ?e1)) = save_executions (trace (save this ?e1))"
    by (simp add: saveBtnClicked_resolved(1) [of ?e1 JUndefined] save_executions_def
        split: outcome.splits)
  then have r1: "save_executions (trace (saveBtnClicked this ?e1)) = 1"
    by (simp add: save_runs_once)
  from r1 r2 twice
  show "case click_twice this env1 env2 of (r1, r2) \<Rightarrow>
       save_executions (trace r1 @ trace r2) = 1
     \<and> trace r2 = [Clicked]
     \<and> result r2 = Resolved JUndefined"
    by (simp add: save_executions_def)
next
  assume "clicked_result env = Rejected e \<and> e \<noteq> JStr ''click debounced''"
  then show "trace (saveBtnClicked this env) = [Clicked, ConsoleError e]"
    and "result (saveBtnClicked this env) = Resolved JUndefined"
    by (simp_all add: saveBtnClicked_rejected)
next
  assume a: "clicked_result env = Resolved u \<and> result (save this env) = Rejected e
        \<and> e \<noteq> JStr ''click debounced''"
  then show "trace (saveBtnClicked this env) = Clicked # trace (save this env) @ [ConsoleError e]"
    by (simp add: saveBtnClicked_resolved(1) [of env u])
  from a show "result (saveBtnClicked this env) = Resolved JUndefined"
    by (simp add: saveBtnClicked_resolved(2) [of env u])
qed

text \<open>
  C7 with collaborators that succeed, with a \<open>clicked()\<close> rejected for another reason, and
  with a \<open>save()\<close> rejected because \<open>hide()\<close> is.
\<close>

theorem saveBtnClicked_debounce_witness:
  "(case click_twice editor_cms env_ok env_ok of (r1, r2) \<Rightarrow>
       save_executions (trace r1 @ trace r2) = 1 \<and> trace r2 = [Clicked]
     \<and> result r2 = Resolved JUndefined)
   \<and> trace (saveBtnClicked editor_cms (env_ok\<lparr>clicked_result := Rejected (JStr ''boom'')\<rparr>))
       = [Clicked, ConsoleError (JStr ''boom'')]
   \<and> trace (saveBtnClicked editor_cms (env_ok\<lparr>spinner_hide := Rejected (JStr ''boom'')\<rparr>))
       = Clicked # trace (save editor_cms (env_ok\<lparr>spinner_hide := Rejected (JStr ''boom'')\<rparr>))
           @ [ConsoleError (JStr ''boom'')]"
  using saveBtnClicked_debounce [of editor_cms env_ok env_ok
      "env_ok\<lparr>clicked_result := Rejected (JStr ''boom'')\<rparr>" "JStr ''boom''" JUndefined]
    saveBtnClicked_debounce [of editor_cms env_ok env_ok
      "env_ok\<lparr>spinner_hide := Rejected (JStr ''boom'')\<rparr>" "JStr ''boom''" JUndefined]
  by (simp add: env_ok_def save_def priv_save_def call_def completed_def result_def)

section \<open>The readiness event\<close>

lemma recompute_ready_same:
  "ready this = Some (computeReady (data this)) \<Longrightarrow> recompute_ready this = (this, [])"
  by (simp add: recompute_ready_def)

lemma recompute_ready_changed:
  "ready this \<noteq> Some (computeReady (data this)) \<Longrightarrow>
   recompute_ready this =
     (this\<lparr>ready := Some (computeReady (data this))\<rparr>, [ready_event (computeReady (data this))])"
  by (simp add: recompute_ready_def readyChanged_def ready_event_def trace_def completed_def
      Let_def)

text \<open>
  From a state whose last computed readiness is \<open>r\<close>, the events fired are the values at
  which the sequence of readiness values changes.
\<close>

lemma data_changes_trace:
  "ready this = Some r \<Longrightarrow>
   snd (data_changes this evs) =
     map ready_event (tl (remdups_adj (r # map (\<lambda>ev. computeReady (detail ev)) evs)))"
proof (induction evs arbitrary: this r)
  case Nil
  then show ?case by simp
next
  case (Cons ev evs)
  let ?s = "fileDataChanged this ev"
  let ?r = "computeReady (detail ev)"
  have d: "data ?s = detail ev" and rd: "ready ?s = Some r"
    using Cons.prems by (simp_all add: fileDataChanged_def)
  show ?case
  proof (cases "?r = r")
    case True
    then have "recompute_ready ?s = (?s, [])"
      using d rd by (simp add: recompute_ready_same)
    then show ?thesis
      using Cons.IH [of ?s r] rd True by (simp add: case_prod_beta)
  next
    case False
    then have "recompute_ready ?s = (?s\<lparr>ready := Some ?r\<rparr>, [ready_event ?r])"
      using d rd recompute_ready_changed [of ?s] by simp
    moreover have "snd (data_changes (?s\<lparr>ready := Some ?r\<rparr>) evs) =
        map ready_event (tl (remdups_adj (?r # map (\<lambda>ev. computeReady (detail ev)) evs)))"
      by (rule Cons.IH) simp
    moreover have
      "ready_event ?r # map ready_event (tl (remdups_adj (?r # map (\<lambda>ev. computeReady (detail ev)) evs)))
        = map ready_event (remdups_adj (?r # map (\<lambda>ev. computeReady (detail ev)) evs))"
      by (metis list.simps(9) remdups_adj_Cons_alt)
    ultimately show ?thesis
      using False by (simp add: case_prod_beta)
  qed
qed

text \<open>
  C8: over the life of an element, from the initial computation on, the
  \<open>image-editor-ready-changed\<close> events fired are, in order, one for the initial readiness and
  one for each later change of the readiness value, each carrying the new value; no two
  events in a row carry the same value.
\<close>

theorem ready_changed_once_per_transition:
  assumes "ready this = None"
  shows "snd (lifetime this evs) =
           map ready_event (remdups_adj (map computeReady (data this # map detail evs)))
       \<and> distinct_adj (snd (lifetime this evs))"
proof -
  let ?r = "computeReady (data this)"
  have first: "recompute_ready this = (this\<lparr>ready := Some ?r\<rparr>, [ready_event ?r])"
    using assms recompute_ready_changed [of this] by simp
  have rest: "snd (data_changes (this\<lparr>ready := Some ?r\<rparr>) evs) =
        map ready_event (tl (remdups_adj (?r # map (\<lambda>ev. computeReady (detail ev)) evs)))"
    by (rule data_changes_trace) simp
  have "snd (lifetime this evs) =
        ready_event ?r # map ready_event (tl (remdups_adj (?r # map (\<lambda>ev. computeReady (detail ev)) evs)))"
    using first rest by (simp add: lifetime_def case_prod_beta)
  also have "\<dots> = map ready_event (remdups_adj (?r # map (\<lambda>ev. computeReady (detail ev)) evs))"
    by (metis list.simps(9) remdups_adj_Cons_alt)
  finally have eq: "snd (lifetime this evs) =
           map ready_event (remdups_adj (map computeReady (data this # map detail evs)))"
    by (simp add: comp_def)
  have "inj ready_event"
    by (simp add: inj_def ready_event_def)
  then have "inj_on ready_event (set (remdups_adj (map computeReady (data this # map detail evs))))"
    by (rule inj_on_subset) simp
  then have "distinct_adj (map ready_event (remdups_adj (map computeReady (data this # map detail evs))))"
    by (simp only: distinct_adj_map_iff distinct_adj_remdups_adj)
  with eq show ?thesis by simp
qed

text \<open>
  C8 on a new element and four \<open>data-changed\<close> events with the readiness values false, true,
  false, false after the initial false: three events, false, true, false.
\<close>

theorem ready_changed_once_per_transition_witness:
  "ready defaults = None
   \<and> snd (lifetime defaults changes_example) =
       [ready_event False, ready_event True, ready_event False]"
  using ready_changed_once_per_transition [of defaults changes_example]
  by (simp add: defaults_def changes_example_def computeReady_def Object_values_def
      has_property_def)

section \<open>getData() and the record set held by the element\<close>

lemma save_writes_data:
  "set (store_writes (trace (save this env)))
     \<subseteq> {ServicesSet (coll this) (doc this) [(field this, data this)]}"
  by (cases "spinner_show env ''Saving...''";
      cases "services_set env (coll this) (doc this) [(field this, data this)]";
      cases "schedule_result env"; cases "warn_result env ''Sorry, an unexpected error occured!''")
     (auto simp: save_def priv_save_def call_def completed_def trace_def Let_def
        store_writes_def)

lemma step_keeps_data:
  "(\<forall>ev. i \<noteq> FileDataChanged ev) \<Longrightarrow> fst (step env this i) = this"
  by (cases i) simp_all

lemma step_sets_data:
  "data (fst (step env this (FileDataChanged ev))) = detail ev"
  by (simp add: recompute_ready_def fileDataChanged_def Let_def)

text \<open>
  C10: \<open>getData()\<close> returns the uploader's record set, whatever \<open>_data\<close> holds, and changes no
  property; every bulk write of \<open>save()\<close> carries \<open>_data\<close>, whatever the uploader's
  \<open>getData()\<close> would return; no method call or event other than \<open>data-changed\<close> changes \<open>_data\<close>,
  and \<open>data-changed\<close> sets it to the detail of the event; and there are states in which
  \<open>save()\<close> persists a set that is not the one \<open>getData()\<close> returns.
\<close>

theorem getData_is_not_the_saved_data:
  "snd (getData this env) = uploader_getData env
   \<and> getData (this\<lparr>data := d\<rparr>) env = getData this env
   \<and> step env this GetData = (this, [UploaderGetData])
   \<and> set (store_writes (trace (save this env)))
       \<subseteq> {ServicesSet (coll this) (doc this) [(field this, data this)]}
   \<and> save this (env\<lparr>uploader_getData := g\<rparr>) = save this env
   \<and> ((\<forall>ev. i \<noteq> FileDataChanged ev) \<longrightarrow> data (fst (step env this i)) = data this)
   \<and> data (fst (step env this (FileDataChanged ev))) = detail ev
   \<and> (\<exists>this' env'.
        store_writes (trace (save this' env')) =
          [ServicesSet (coll this') (doc this') [(field this', data this')]]
        \<and> snd (getData this' env') \<noteq> data this')"
proof (intro conjI impI)
  show "snd (getData this env) = uploader_getData env"
    by (simp add: getData_def)
  show "getData (this\<lparr>data := d\<rparr>) env = getData this env"
    by (simp add: getData_def)
  show "step env this GetData = (this, [UploaderGetData])"
    by (simp add: getData_def)
  show "set (store_writes (trace (save this env)))
       \<subseteq> {ServicesSet (coll this) (doc this) [(field this, data this)]}"
    by (rule save_writes_data)
  show "save this (env\<lparr>uploader_getData := g\<rparr>) = save this env"
    by (simp add: save_def priv_save_def)
  show "data (fst (step env this (FileDataChanged ev))) = detail ev"
    by (rule step_sets_data)
  have "store_writes (trace (save editor_cms env_ok)) =
          [ServicesSet (coll editor_cms) (doc editor_cms) [(field editor_cms, data editor_cms)]]
        \<and> snd (getData editor_cms env_ok) \<noteq> data editor_cms"
    by (simp add: save_def priv_save_def call_def completed_def trace_def store_writes_def
        getData_def env_ok_def editor_cms_def)
  then show "\<exists>this' env'.
        store_writes (trace (save this' env')) =
          [ServicesSet (coll this') (doc this') [(field this', data this')]]
        \<and> snd (getData this' env') \<noteq> data this'"
    by blast
next
  assume "\<forall>ev. i \<noteq> FileDataChanged ev"
  then show "data (fst (step env this i)) = data this"
    by (simp add: step_keeps_data)
qed

text \<open>
  C10 where the uploader holds the empty set and the element still holds \<open>abc123\<close>: \<open>save()\<close>
  writes \<open>abc123\<close>, \<open>getData()\<close> returns the empty set, and \<open>deleteAll()\<close> leaves \<open>_data\<close> as it is.
\<close>

theorem getData_is_not_the_saved_data_witness:
  "snd (getData editor_cms env_ok) = Some []
   \<and> set (store_writes (trace (save editor_cms env_ok)))
       \<subseteq> {ServicesSet (Some ''cms'') (Some ''home'') [(''heroImg'', Some [(''abc123'', record_abc123)])]}
   \<and> data (fst (step env_ok editor_cms DeleteAll)) = Some [(''abc123'', record_abc123)]"
  using getData_is_not_the_saved_data [of editor_cms env_ok "None" "None" DeleteAll "\<lparr>detail = None\<rparr>"]
  by (simp add: env_ok_def editor_cms_def)

end
